theory Spec2Isabelle
  imports Complex_Main
begin

section \<open>Data model of \<^verbatim>\<open>backend/server.py\<close>\<close>

text \<open>
  The pydantic models of the server become records. Field names follow the source; a
  prefix is added where two models share a field name (\<^verbatim>\<open>id\<close>, \<^verbatim>\<open>name\<close>,
  \<^verbatim>\<open>room_id\<close>) or where the name is reserved (\<^verbatim>\<open>text\<close>).

  Values the server draws from its environment are arguments of the operations:
  the identifier produced by \<^verbatim>\<open>uuid.uuid4()\<close>, the time read by
  \<^verbatim>\<open>datetime.utcnow()\<close>, and the classifier \<^verbatim>\<open>predict_sign\<close>, which runs
  the TensorFlow model. A confidence is a Python float; it is modelled by the real number
  it denotes (the comparison \<^verbatim>\<open>confidence > 0.7\<close> agrees with the comparison of
  reals on every finite float; NaN is outside the model).
\<close>

type_synonym datetime = nat
type_synonym sid = string

record Room =
  r_id :: string
  r_name :: string
  r_created_at :: datetime
  participants :: "string list"
  max_participants :: int

record ParticipantCreate =
  pc_name :: string

record Participant =
  p_id :: string
  p_name :: string
  p_room_id :: string
  joined_at :: datetime

record PredictionRequest =
  image_data :: string
  room_id :: string
  participant_id :: string

record Caption =
  c_id :: string
  c_text :: string
  participant_name :: string
  c_room_id :: string
  timestamp :: datetime
  confidence :: real

text \<open>The JSON body returned by \<^verbatim>\<open>/api/predict\<close>.\<close>

record prediction_response =
  predicted_text :: "string option"
  resp_confidence :: real

text \<open>
  The exceptions a handler can raise: \<^verbatim>\<open>HTTPException(status_code, detail)\<close>, and
  the \<^verbatim>\<open>TypeError\<close> of the JSON encoder for a value it cannot encode.
\<close>

datatype py_exception = HTTPException nat string | TypeError

text \<open>
  The events the server emits, one constructor per event name, with the fields of the
  payload dictionary in source order. A field read with \<^verbatim>\<open>data.get\<close> may be
  \<^verbatim>\<open>None\<close>.
\<close>

datatype event =
    Participant_joined Participant string
  | New_caption Caption
  | User_joined sid "string option"
  | User_left sid
  | Webrtc_offer "string option" sid

text \<open>
  A payload can be sent when the JSON encoder accepts it. The payloads of
  \<^verbatim>\<open>participant_joined\<close> (\<^verbatim>\<open>participant.dict()\<close>, with
  \<^verbatim>\<open>joined_at\<close>) and of \<^verbatim>\<open>new_caption\<close> (\<^verbatim>\<open>caption.dict()\<close>,
  with \<^verbatim>\<open>timestamp\<close>) carry a \<^verbatim>\<open>datetime\<close>; the other payloads are
  built from connection ids and from values that arrived as JSON.
\<close>

fun json_serializable :: "event \<Rightarrow> bool" where
  "json_serializable (Participant_joined participant rid) = False"
| "json_serializable (New_caption caption) = False"
| "json_serializable (User_joined c pid) = True"
| "json_serializable (User_left c) = True"
| "json_serializable (Webrtc_offer offer c) = True"

text \<open>
  One packet sent by \<^verbatim>\<open>sio.emit(event, data, room=..., skip_sid=...)\<close>, together
  with the connections it was delivered to (the members of the addressed room when the call
  was made, without \<^verbatim>\<open>skip_sid\<close>).
\<close>

record emit_call =
  ev :: event
  to_room :: "string option"
  skip_sid :: "sid option"
  recipients :: "sid list"

text \<open>
  The state the handlers work on: the three MongoDB collections (documents in insertion
  order), the room table of the Socket.IO server and the log of sent packets.
  In the room table the room \<open>None\<close> holds every connected client, as in
  python-socketio's manager.
\<close>

record server =
  db_rooms :: "Room list"
  db_participants :: "Participant list"
  db_captions :: "Caption list"
  sio_rooms :: "(string option \<times> sid) list"
  sio_emits :: "emit_call list"

section \<open>The Socket.IO server the handlers call\<close>

text \<open>
  python-socketio is a library, not part of the repository. The handlers use three of its
  operations, modelled after the library: \<^verbatim>\<open>enter_room\<close> adds a connection to a
  room and keeps its other rooms, \<^verbatim>\<open>leave_room\<close> removes it (silently when it is
  not a member), and \<^verbatim>\<open>emit\<close> delivers an event to every member of the addressed
  room except \<^verbatim>\<open>skip_sid\<close>. When a client connects, the library enters it into the
  room of all clients and into a room named by its own connection id; this personal room
  is an ordinary room.

  \<^verbatim>\<open>emit\<close> returns at once when the namespace has no room, that is, when no client
  is connected. Otherwise it encodes the packet with the standard JSON encoder before it
  looks up the recipients; a payload the encoder refuses raises \<^verbatim>\<open>TypeError\<close>
  out of \<^verbatim>\<open>emit\<close>, and nothing is delivered.
\<close>

definition room_members :: "server \<Rightarrow> string option \<Rightarrow> sid list" where
  "room_members s room = map snd (filter (\<lambda>m. fst m = room) (sio_rooms s))"

definition sio_enter_room :: "server \<Rightarrow> sid \<Rightarrow> string option \<Rightarrow> server" where
  "sio_enter_room s c room =
     (if (room, c) \<in> set (sio_rooms s) then s
      else s\<lparr>sio_rooms := sio_rooms s @ [(room, c)]\<rparr>)"

definition sio_leave_room :: "server \<Rightarrow> sid \<Rightarrow> string option \<Rightarrow> server" where
  "sio_leave_room s c room = s\<lparr>sio_rooms := filter (\<lambda>m. m \<noteq> (room, c)) (sio_rooms s)\<rparr>"

definition sio_emit ::
  "server \<Rightarrow> event \<Rightarrow> string option \<Rightarrow> sid option \<Rightarrow> py_exception + server" where
  "sio_emit s e room skip =
     (if sio_rooms s = [] then Inr s
      else if \<not> json_serializable e then Inl TypeError
      else Inr (s\<lparr>sio_emits := sio_emits s @
             [\<lparr>ev = e, to_room = room, skip_sid = skip,
               recipients = filter (\<lambda>c. Some c \<noteq> skip) (room_members s room)\<rparr>]\<rparr>))"

definition sio_accept :: "server \<Rightarrow> sid \<Rightarrow> server" where
  "sio_accept s c = sio_enter_room (sio_enter_room s c None) c (Some c)"

text \<open>The events delivered to one connection, oldest first.\<close>

definition delivered :: "server \<Rightarrow> sid \<Rightarrow> event list" where
  "delivered s c = map ev (filter (\<lambda>m. c \<in> set (recipients m)) (sio_emits s))"

section \<open>MongoDB operations\<close>

text \<open>
  \<^verbatim>\<open>find_one({"id": x})\<close> returns the first document with that id;
  \<^verbatim>\<open>update_one({"id": x}, {"$push": {"participants": p}})\<close> appends to the
  participant list of the first document with that id and changes no other document.
\<close>

definition find_one_room :: "Room list \<Rightarrow> string \<Rightarrow> Room option" where
  "find_one_room rs rid = find (\<lambda>r. r_id r = rid) rs"

definition find_one_participant :: "Participant list \<Rightarrow> string \<Rightarrow> Participant option" where
  "find_one_participant ps pid = find (\<lambda>p. p_id p = pid) ps"

fun update_one_push :: "Room list \<Rightarrow> string \<Rightarrow> string \<Rightarrow> Room list" where
  "update_one_push [] rid pid = []"
| "update_one_push (r # rs) rid pid =
     (if r_id r = rid then r\<lparr>participants := participants r @ [pid]\<rparr> # rs
      else r # update_one_push rs rid pid)"

section \<open>REST handlers\<close>

text \<open>
  \<^verbatim>\<open>POST /api/rooms/{room_id}/join\<close>. The handler awaits the database between its
  capacity check and its writes, so another request can run in between. It is therefore
  modelled in two steps. \<open>join_read\<close> is lines 198 to 206: it reads the room and checks
  the capacity on what it read. \<open>join_write\<close> is lines 209 to 226: it pushes the new
  participant id with no further condition, stores the participant and emits
  \<^verbatim>\<open>participant_joined\<close>; an exception of the emit leaves the handler after both
  writes. \<open>join_room\<close> is one request with no other request in between.
\<close>

definition join_read :: "server \<Rightarrow> string \<Rightarrow> py_exception + Room" where
  "join_read s rid =
     (case find_one_room (db_rooms s) rid of
        None \<Rightarrow> Inl (HTTPException 404 ''Room not found'')
      | Some room \<Rightarrow>
          if int (length (participants room)) \<ge> max_participants room
          then Inl (HTTPException 400 ''Room is full'')
          else Inr room)"

definition join_write ::
  "server \<Rightarrow> string \<Rightarrow> ParticipantCreate \<Rightarrow> string \<Rightarrow> datetime
     \<Rightarrow> (py_exception + Participant) \<times> server" where
  "join_write s rid participant_data new_id now =
     (let participant = \<lparr>p_id = new_id, p_name = pc_name participant_data,
                        p_room_id = rid, joined_at = now\<rparr>;
          s1 = s\<lparr>db_rooms := update_one_push (db_rooms s) rid (p_id participant)\<rparr>;
          s2 = s1\<lparr>db_participants := db_participants s1 @ [participant]\<rparr>
      in case sio_emit s2 (Participant_joined participant rid) (Some rid) None of
           Inl e \<Rightarrow> (Inl e, s2)
         | Inr s3 \<Rightarrow> (Inr participant, s3))"

definition join_room ::
  "server \<Rightarrow> string \<Rightarrow> ParticipantCreate \<Rightarrow> string \<Rightarrow> datetime
     \<Rightarrow> (py_exception + Participant) \<times> server" where
  "join_room s rid participant_data new_id now =
     (case join_read s rid of
        Inl e \<Rightarrow> (Inl e, s)
      | Inr room \<Rightarrow> join_write s rid participant_data new_id now)"

text \<open>A sequence of join requests, one after the other; the responses are dropped.\<close>

fun join_rooms ::
  "server \<Rightarrow> (string \<times> ParticipantCreate \<times> string \<times> datetime) list \<Rightarrow> server" where
  "join_rooms s [] = s"
| "join_rooms s ((rid, pd, new_id, now) # reqs) =
     join_rooms (snd (join_room s rid pd new_id now)) reqs"

text \<open>
  Two join requests for the same room that overlap: both complete \<open>join_read\<close> before
  either runs \<open>join_write\<close>. The result is the two responses and the final state.
\<close>

definition join_room_overlapped ::
  "server \<Rightarrow> string \<Rightarrow> ParticipantCreate \<times> string \<times> datetime
     \<Rightarrow> ParticipantCreate \<times> string \<times> datetime
     \<Rightarrow> (py_exception + Participant) \<times> (py_exception + Participant) \<times> server" where
  "join_room_overlapped s rid req1 req2 =
     (let read1 = join_read s rid;
          read2 = join_read s rid;
          (res1, s1) = (case read1 of
                          Inl e \<Rightarrow> (Inl e, s)
                        | Inr room \<Rightarrow> join_write s rid (fst req1) (fst (snd req1)) (snd (snd req1)));
          (res2, s2) = (case read2 of
                          Inl e \<Rightarrow> (Inl e, s1)
                        | Inr room \<Rightarrow> join_write s1 rid (fst req2) (fst (snd req2)) (snd (snd req2)))
      in (res1, res2, s2))"

text \<open>
  \<^verbatim>\<open>POST /api/predict\<close>. \<open>predict_try\<close> is the body of the \<^verbatim>\<open>try\<close> block;
  a Python string is true when it is not empty, so the gate
  \<^verbatim>\<open>predicted_text and confidence > 0.7\<close> rejects the empty label as it rejects
  \<^verbatim>\<open>None\<close>. The caption is stored before the emit, so an exception of the emit
  leaves the body with the caption stored. \<open>predict_sign_language\<close> adds the handler
  \<^verbatim>\<open>except Exception\<close>, which catches every exception raised in the body
  (\<^verbatim>\<open>HTTPException\<close> is a subclass of \<^verbatim>\<open>Exception\<close>) and raises
  \<^verbatim>\<open>HTTPException(500, "Prediction failed")\<close> in its place.
\<close>

definition predict_try ::
  "server \<Rightarrow> (string \<Rightarrow> string option \<times> real) \<Rightarrow> PredictionRequest \<Rightarrow> string \<Rightarrow> datetime
     \<Rightarrow> (py_exception + prediction_response) \<times> server" where
  "predict_try s predict_sign request new_id now =
     (case predict_sign (image_data request) of
        (label, conf) \<Rightarrow>
          (case label of
             Some txt \<Rightarrow>
               if txt \<noteq> [] \<and> conf > 7 / 10 then
                 (case find_one_participant (db_participants s) (participant_id request) of
                    None \<Rightarrow> (Inl (HTTPException 404 ''Participant not found''), s)
                  | Some participant \<Rightarrow>
                      (let caption = \<lparr>c_id = new_id, c_text = txt,
                                      participant_name = p_name participant,
                                      c_room_id = room_id request,
                                      timestamp = now, confidence = conf\<rparr>;
                           s1 = s\<lparr>db_captions := db_captions s @ [caption]\<rparr>
                       in (case sio_emit s1 (New_caption caption) (Some (room_id request)) None of
                             Inl e \<Rightarrow> (Inl e, s1)
                           | Inr s2 \<Rightarrow>
                               (Inr \<lparr>predicted_text = Some txt, resp_confidence = conf\<rparr>, s2))))
               else (Inr \<lparr>predicted_text = None, resp_confidence = conf\<rparr>, s)
           | None \<Rightarrow> (Inr \<lparr>predicted_text = None, resp_confidence = conf\<rparr>, s)))"

definition predict_sign_language ::
  "server \<Rightarrow> (string \<Rightarrow> string option \<times> real) \<Rightarrow> PredictionRequest \<Rightarrow> string \<Rightarrow> datetime
     \<Rightarrow> (py_exception + prediction_response) \<times> server" where
  "predict_sign_language s predict_sign request new_id now =
     (case predict_try s predict_sign request new_id now of
        (Inl e, s') \<Rightarrow> (Inl (HTTPException 500 ''Prediction failed''), s')
      | (Inr response, s') \<Rightarrow> (Inr response, s'))"

section \<open>Socket.IO event handlers\<close>

text \<open>
  The payload \<^verbatim>\<open>data\<close> of an event is a dictionary; \<^verbatim>\<open>data.get(k)\<close> is the
  lookup \<open>data k\<close>. \<^verbatim>\<open>if room_id:\<close> holds for a string that is not empty.
  \<^verbatim>\<open>connect\<close> and \<^verbatim>\<open>disconnect\<close> only write a log line. An exception of
  an emit would end the handler in the state reached before the emit.
\<close>

definition connect :: "server \<Rightarrow> sid \<Rightarrow> server" where
  "connect s c = s"

definition disconnect :: "server \<Rightarrow> sid \<Rightarrow> server" where
  "disconnect s c = s"

definition join_room_event :: "server \<Rightarrow> sid \<Rightarrow> (string \<rightharpoonup> string) \<Rightarrow> server" where
  "join_room_event s c data =
     (let rid = data ''room_id''; pid = data ''participant_id'' in
      case rid of
        None \<Rightarrow> s
      | Some r \<Rightarrow>
          if r \<noteq> [] then
            (let s1 = sio_enter_room s c (Some r) in
             case sio_emit s1 (User_joined c pid) (Some r) (Some c) of
               Inl e \<Rightarrow> s1
             | Inr s2 \<Rightarrow> s2)
          else s)"

definition leave_room :: "server \<Rightarrow> sid \<Rightarrow> (string \<rightharpoonup> string) \<Rightarrow> server" where
  "leave_room s c data =
     (case data ''room_id'' of
        None \<Rightarrow> s
      | Some r \<Rightarrow>
          if r \<noteq> [] then
            (let s1 = sio_leave_room s c (Some r) in
             case sio_emit s1 (User_left c) (Some r) (Some c) of
               Inl e \<Rightarrow> s1
             | Inr s2 \<Rightarrow> s2)
          else s)"

definition webrtc_offer :: "server \<Rightarrow> sid \<Rightarrow> (string \<rightharpoonup> string) \<Rightarrow> server" where
  "webrtc_offer s c data =
     (let target_sid = data ''target_sid''; offer = data ''offer'' in
      case sio_emit s (Webrtc_offer offer c) target_sid None of
        Inl e \<Rightarrow> s
      | Inr s1 \<Rightarrow> s1)"

section \<open>Derived notions and example states\<close>

text \<open>The capacity invariant of the rooms collection.\<close>

definition capacity_ok :: "server \<Rightarrow> bool" where
  "capacity_ok s =
     list_all (\<lambda>r. int (length (participants r)) \<le> max_participants r) (db_rooms s)"

text \<open>A classifier that answers every image with the same label and confidence.\<close>

definition fixed_classifier :: "string option \<Rightarrow> real \<Rightarrow> string \<Rightarrow> string option \<times> real" where
  "fixed_classifier label conf img = (label, conf)"

text \<open>Event payloads as the browser client sends them.\<close>

definition join_payload :: "string \<Rightarrow> string \<Rightarrow> (string \<rightharpoonup> string)" where
  "join_payload r p = [''room_id'' \<mapsto> r, ''participant_id'' \<mapsto> p]"

definition room_payload :: "string \<Rightarrow> (string \<rightharpoonup> string)" where
  "room_payload r = [''room_id'' \<mapsto> r]"

definition offer_payload :: "string \<Rightarrow> string \<Rightarrow> (string \<rightharpoonup> string)" where
  "offer_payload t sdp = [''target_sid'' \<mapsto> t, ''offer'' \<mapsto> sdp]"

definition no_payload :: "string \<rightharpoonup> string" where
  "no_payload = Map.empty"

definition no_server :: server where
  "no_server = \<lparr>db_rooms = [], db_participants = [], db_captions = [],
                 sio_rooms = [], sio_emits = []\<rparr>"

definition alice :: Participant where
  "alice = \<lparr>p_id = ''p1'', p_name = ''Alice'', p_room_id = ''r1'', joined_at = 1\<rparr>"

definition call_room :: Room where
  "call_room = \<lparr>r_id = ''r1'', r_name = ''Demo'', r_created_at = 0,
                 participants = [''p1''], max_participants = 2\<rparr>"

definition full_room :: Room where
  "full_room = \<lparr>r_id = ''r1'', r_name = ''Demo'', r_created_at = 0,
                 participants = [''p1'', ''p2''], max_participants = 2\<rparr>"

text \<open>
  The lobby: room \<open>r1\<close> of capacity two with Alice as its participant \<open>p1\<close>, and no
  Socket.IO client connected.
\<close>

definition lobby :: server where
  "lobby = no_server\<lparr>db_rooms := [call_room], db_participants := [alice]\<rparr>"

text \<open>
  A running call: the lobby after the clients \<open>a\<close> and \<open>b\<close> have connected and each
  has sent \<^verbatim>\<open>join_room\<close> for \<open>r1\<close>.
\<close>

definition call :: server where
  "call =
     join_room_event
       (join_room_event
          (sio_accept (sio_accept
             (no_server\<lparr>db_rooms := [call_room], db_participants := [alice]\<rparr>) ''a'') ''b'')
          ''a'' (join_payload ''r1'' ''p1''))
       ''b'' (room_payload ''r1'')"

text \<open>The same call with the room at its capacity.\<close>

definition full_call :: server where
  "full_call = call\<lparr>db_rooms := [full_room]\<rparr>"

text \<open>
  The running call after \<open>b\<close> has also sent \<^verbatim>\<open>join_room\<close> for \<open>r9\<close>, an id
  that no room in the database carries.
\<close>

definition side_call :: server where
  "side_call = join_room_event call ''b'' (room_payload ''r9'')"

text \<open>
  Three clients \<open>x\<close>, \<open>s\<close> and \<open>eve\<close> have connected, and \<open>eve\<close> has sent
  \<^verbatim>\<open>join_room\<close> with the connection id of \<open>x\<close> as its room id.
\<close>

definition tapped :: server where
  "tapped =
     join_room_event (sio_accept (sio_accept (sio_accept no_server ''x'') ''s'') ''eve'')
       ''eve'' (room_payload ''x'')"

definition sample_request :: "string \<Rightarrow> string \<Rightarrow> PredictionRequest" where
  "sample_request rid pid =
     \<lparr>image_data = ''data:image/jpeg;base64,AAAA'', room_id = rid, participant_id = pid\<rparr>"

section \<open>Facts about the library model and the collections\<close>

lemma call_eq:
  "call = \<lparr>db_rooms = [call_room], db_participants = [alice], db_captions = [],
     sio_rooms = [(None, ''a''), (Some ''a'', ''a''), (None, ''b''), (Some ''b'', ''b''),
                  (Some ''r1'', ''a''), (Some ''r1'', ''b'')],
     sio_emits = [\<lparr>ev = User_joined ''a'' (Some ''p1''), to_room = Some ''r1'',
                    skip_sid = Some ''a'', recipients = []\<rparr>,
                  \<lparr>ev = User_joined ''b'' None, to_room = Some ''r1'',
                    skip_sid = Some ''b'', recipients = [''a'']\<rparr>]\<rparr>"
  by (simp add: call_def no_server_def join_room_event_def sio_accept_def sio_enter_room_def
      sio_emit_def room_members_def join_payload_def room_payload_def Let_def)

lemma side_call_eq:
  "side_call = \<lparr>db_rooms = [call_room], db_participants = [alice], db_captions = [],
     sio_rooms = [(None, ''a''), (Some ''a'', ''a''), (None, ''b''), (Some ''b'', ''b''),
                  (Some ''r1'', ''a''), (Some ''r1'', ''b''), (Some ''r9'', ''b'')],
     sio_emits = [\<lparr>ev = User_joined ''a'' (Some ''p1''), to_room = Some ''r1'',
                    skip_sid = Some ''a'', recipients = []\<rparr>,
                  \<lparr>ev = User_joined ''b'' None, to_room = Some ''r1'',
                    skip_sid = Some ''b'', recipients = [''a'']\<rparr>,
                  \<lparr>ev = User_joined ''b'' None, to_room = Some ''r9'',
                    skip_sid = Some ''b'', recipients = []\<rparr>]\<rparr>"
  by (simp add: side_call_def call_eq join_room_event_def sio_enter_room_def
      sio_emit_def room_members_def room_payload_def Let_def)

lemma tapped_eq:
  "tapped = \<lparr>db_rooms = [], db_participants = [], db_captions = [],
     sio_rooms = [(None, ''x''), (Some ''x'', ''x''), (None, ''s''), (Some ''s'', ''s''),
                  (None, ''eve''), (Some ''eve'', ''eve''), (Some ''x'', ''eve'')],
     sio_emits = [\<lparr>ev = User_joined ''eve'' None, to_room = Some ''x'',
                    skip_sid = Some ''eve'', recipients = [''x'']\<rparr>]\<rparr>"
  by (simp add: tapped_def no_server_def join_room_event_def sio_accept_def sio_enter_room_def
      sio_emit_def room_members_def room_payload_def Let_def)

lemma find_one_room_None: "find_one_room rs rid = None \<longleftrightarrow> rid \<notin> r_id ` set rs"
  by (auto simp: find_one_room_def find_None_iff)

lemma room_members_no_rooms: "sio_rooms s = [] \<Longrightarrow> room_members s room = []"
  by (simp add: room_members_def)

text \<open>An emit of a payload that encodes never raises; its effect is on the packet log only.\<close>

lemma sio_emit_serializable:
  "json_serializable e \<Longrightarrow>
   sio_emit s e room skip =
     Inr (if sio_rooms s = [] then s
          else s\<lparr>sio_emits := sio_emits s @
                 [\<lparr>ev = e, to_room = room, skip_sid = skip,
                   recipients = filter (\<lambda>c. Some c \<noteq> skip) (room_members s room)\<rparr>]\<rparr>)"
  by (simp add: sio_emit_def)

lemma sio_emit_db:
  "sio_emit s e room skip = Inr s' \<Longrightarrow>
   db_rooms s' = db_rooms s \<and> db_participants s' = db_participants s \<and>
   db_captions s' = db_captions s \<and> sio_rooms s' = sio_rooms s"
  by (auto simp: sio_emit_def split: if_splits)

lemma sio_emit_delivered:
  "json_serializable e \<Longrightarrow> sio_emit s e room skip = Inr s' \<Longrightarrow>
   delivered s' y =
     delivered s y @ (if y \<in> set (room_members s room) \<and> Some y \<noteq> skip then [e] else [])"
  by (auto simp: sio_emit_def delivered_def room_members_no_rooms split: if_splits)

lemma sio_emit_not_serializable:
  "\<not> json_serializable e \<Longrightarrow>
   sio_emit s e room skip = (if sio_rooms s = [] then Inr s else Inl TypeError)"
  by (simp add: sio_emit_def)

lemma delivered_sio_enter_room: "delivered (sio_enter_room s c room) y = delivered s y"
  by (simp add: delivered_def sio_enter_room_def)

lemma delivered_sio_leave_room: "delivered (sio_leave_room s c room) y = delivered s y"
  by (simp add: delivered_def sio_leave_room_def)

lemma set_sio_enter_room:
  "set (sio_rooms (sio_enter_room s c room)) = insert (room, c) (set (sio_rooms s))"
  by (auto simp: sio_enter_room_def)

lemma set_room_members_enter:
  "set (room_members (sio_enter_room s c room) room) = insert c (set (room_members s room))"
  by (force simp: room_members_def sio_enter_room_def)

lemma set_room_members_leave:
  "set (room_members (sio_leave_room s c room) room) = set (room_members s room) - {c}"
  by (force simp: room_members_def sio_leave_room_def)

section \<open>Joining a room over REST\<close>

lemma join_room_not_found:
  "find_one_room (db_rooms s) rid = None \<Longrightarrow>
   join_room s rid pd new_id now = (Inl (HTTPException 404 ''Room not found''), s)"
  by (simp add: join_room_def join_read_def)

lemma join_room_full:
  "find_one_room (db_rooms s) rid = Some room \<Longrightarrow>
   max_participants room \<le> int (length (participants room)) \<Longrightarrow>
   join_room s rid pd new_id now = (Inl (HTTPException 400 ''Room is full''), s)"
  by (simp add: join_room_def join_read_def)

lemma join_write_db_rooms:
  "db_rooms (snd (join_write s rid pd new_id now)) = update_one_push (db_rooms s) rid new_id"
  by (auto simp: join_write_def Let_def split: sum.splits dest: sio_emit_db)

text \<open>
  The push touches only the first room with the id. When it is the room whose capacity was
  checked, and no other request ran in between, a push below capacity keeps every room
  within its capacity.
\<close>

lemma update_one_push_ok:
  "find (\<lambda>r. r_id r = rid) rs = Some room \<Longrightarrow>
   int (length (participants room)) < max_participants room \<Longrightarrow>
   list_all (\<lambda>r. int (length (participants r)) \<le> max_participants r) rs \<Longrightarrow>
   list_all (\<lambda>r. int (length (participants r)) \<le> max_participants r)
     (update_one_push rs rid pid)"
  by (induction rs) (auto split: if_splits)

lemma join_room_capacity_ok:
  "capacity_ok s \<Longrightarrow> capacity_ok (snd (join_room s rid pd new_id now))"
  by (auto simp: join_room_def join_read_def capacity_ok_def join_write_db_rooms
      find_one_room_def intro: update_one_push_ok split: option.splits)

lemma join_rooms_capacity_ok:
  "capacity_ok s \<Longrightarrow> capacity_ok (join_rooms s reqs)"
  by (induction s reqs rule: join_rooms.induct) (auto intro: join_room_capacity_ok)

text \<open>
  C1. A join request that finds room \<open>r1\<close> at its capacity of two is refused with
  400 "Room is full" and changes nothing. But room \<open>r1\<close> of the lobby has one
  participant, and two join requests for it overlap: each reads the room with one
  participant and passes the capacity check, and each then pushes its participant. Both
  requests succeed and the room ends with three participants, above its capacity.
  (For every state, a request at a full room is refused, and requests that run one after
  the other keep every room within its capacity: lemmas \<open>join_room_full\<close> and
  \<open>join_rooms_capacity_ok\<close>.)
\<close>

theorem join_room_overlapped_exceeds_capacity:
  "join_room full_call ''r1'' \<lparr>pc_name = ''Carol''\<rparr> ''p3'' 9 =
     (Inl (HTTPException 400 ''Room is full''), full_call) \<and>
   capacity_ok lobby \<and>
   join_read lobby ''r1'' = Inr call_room \<and>
   join_room_overlapped lobby ''r1'' (\<lparr>pc_name = ''Bob''\<rparr>, ''p2'', 2)
       (\<lparr>pc_name = ''Carol''\<rparr>, ''p3'', 3) =
     (Inr \<lparr>p_id = ''p2'', p_name = ''Bob'', p_room_id = ''r1'', joined_at = 2\<rparr>,
      Inr \<lparr>p_id = ''p3'', p_name = ''Carol'', p_room_id = ''r1'', joined_at = 3\<rparr>,
      lobby\<lparr>db_rooms :=
               [\<lparr>r_id = ''r1'', r_name = ''Demo'', r_created_at = 0,
                 participants = [''p1'', ''p2'', ''p3''], max_participants = 2\<rparr>],
            db_participants :=
               [alice,
                \<lparr>p_id = ''p2'', p_name = ''Bob'', p_room_id = ''r1'', joined_at = 2\<rparr>,
                \<lparr>p_id = ''p3'', p_name = ''Carol'', p_room_id = ''r1'', joined_at = 3\<rparr>]\<rparr>) \<and>
   \<not> capacity_ok (snd (snd (join_room_overlapped lobby ''r1'' (\<lparr>pc_name = ''Bob''\<rparr>, ''p2'', 2)
       (\<lparr>pc_name = ''Carol''\<rparr>, ''p3'', 3))))"
  by (simp add: join_room_overlapped_def join_room_def join_read_def join_write_def
      sio_emit_def lobby_def full_call_def full_room_def no_server_def call_room_def
      find_one_room_def capacity_ok_def Let_def)

text \<open>
  C7. A join request for a room id that no room in the registry carries fails with
  404 "Room not found", whatever the participant name: the result is neither
  400 "Room is full" nor a participant, and the state is unchanged.
\<close>

theorem join_room_missing_room:
  "rid \<notin> r_id ` set (db_rooms s) \<Longrightarrow>
   join_room s rid pd new_id now = (Inl (HTTPException 404 ''Room not found''), s) \<and>
   fst (join_room s rid pd new_id now) \<noteq> Inl (HTTPException 400 ''Room is full'') \<and>
   (\<forall>p. fst (join_room s rid pd new_id now) \<noteq> Inr p)"
  by (simp add: join_room_not_found find_one_room_None)

text \<open>C7 at the running call, for the id \<open>nonexistent-room-id\<close>.\<close>

theorem join_room_missing_room_witness:
  "''nonexistent-room-id'' \<notin> r_id ` set (db_rooms call) \<and>
   join_room call ''nonexistent-room-id'' \<lparr>pc_name = ''Test Participant''\<rparr> ''p5'' 6 =
     (Inl (HTTPException 404 ''Room not found''), call)"
  using join_room_missing_room
    [of "''nonexistent-room-id''" call "\<lparr>pc_name = ''Test Participant''\<rparr>" "''p5''" 6]
  by (simp add: call_eq call_room_def)

text \<open>
  C9. In the running call the clients \<open>a\<close> and \<open>b\<close> are in room \<open>r1\<close>. A REST join
  of \<open>r1\<close> as Ann pushes her id to the room and stores her participant record; the emit
  of \<^verbatim>\<open>participant_joined\<close> then raises \<^verbatim>\<open>TypeError\<close>, because the payload
  carries the \<^verbatim>\<open>datetime\<close> \<^verbatim>\<open>joined_at\<close>. The request fails after both writes
  and neither \<open>a\<close> nor \<open>b\<close> is sent the announcement. The \<^verbatim>\<open>join_room\<close> event,
  whose payload encodes, does announce: when \<open>a\<close> sends it for \<open>r1\<close>, \<open>b\<close> receives
  \<^verbatim>\<open>user_joined\<close> and \<open>a\<close> does not.
\<close>

theorem participant_joined_never_delivered:
  "''a'' \<in> set (room_members call (Some ''r1'')) \<and>
   ''b'' \<in> set (room_members call (Some ''r1'')) \<and>
   join_room call ''r1'' \<lparr>pc_name = ''Ann''\<rparr> ''p2'' 3 =
     (Inl TypeError,
      call\<lparr>db_rooms :=
              [\<lparr>r_id = ''r1'', r_name = ''Demo'', r_created_at = 0,
                participants = [''p1'', ''p2''], max_participants = 2\<rparr>],
           db_participants :=
              [alice, \<lparr>p_id = ''p2'', p_name = ''Ann'', p_room_id = ''r1'', joined_at = 3\<rparr>]\<rparr>) \<and>
   delivered (snd (join_room call ''r1'' \<lparr>pc_name = ''Ann''\<rparr> ''p2'' 3)) ''a'' =
     delivered call ''a'' \<and>
   delivered (snd (join_room call ''r1'' \<lparr>pc_name = ''Ann''\<rparr> ''p2'' 3)) ''b'' =
     delivered call ''b'' \<and>
   delivered (join_room_event call ''a'' (room_payload ''r1'')) ''b'' =
     delivered call ''b'' @ [User_joined ''a'' None] \<and>
   delivered (join_room_event call ''a'' (room_payload ''r1'')) ''a'' = delivered call ''a''"
  by (simp add: call_eq join_room_def join_read_def join_write_def find_one_room_def
      call_room_def sio_emit_def room_members_def delivered_def Let_def
      join_room_event_def sio_enter_room_def room_payload_def)

section \<open>The caption pipeline\<close>

lemma predict_reject:
  "predict_sign (image_data request) = (label, conf) \<Longrightarrow>
   label = None \<or> label = Some [] \<or> conf \<le> 7 / 10 \<Longrightarrow>
   predict_sign_language s predict_sign request new_id now =
     (Inr \<lparr>predicted_text = None, resp_confidence = conf\<rparr>, s)"
  by (auto simp: predict_sign_language_def predict_try_def split: option.splits)

text \<open>
  Past the gate and the participant lookup, the caption is stored with the room id of the
  request, whatever the emit does afterwards.
\<close>

lemma predict_accept_stored:
  "predict_sign (image_data request) = (Some txt, conf) \<Longrightarrow> txt \<noteq> [] \<Longrightarrow> 7 / 10 < conf \<Longrightarrow>
   find_one_participant (db_participants s) (participant_id request) = Some participant \<Longrightarrow>
   db_captions (snd (predict_sign_language s predict_sign request new_id now)) =
     db_captions s @
       [\<lparr>c_id = new_id, c_text = txt, participant_name = p_name participant,
         c_room_id = room_id request, timestamp = now, confidence = conf\<rparr>]"
  by (simp add: predict_sign_language_def predict_try_def sio_emit_def Let_def)

lemma predict_accept_no_client:
  "predict_sign (image_data request) = (Some txt, conf) \<Longrightarrow> txt \<noteq> [] \<Longrightarrow> 7 / 10 < conf \<Longrightarrow>
   find_one_participant (db_participants s) (participant_id request) = Some participant \<Longrightarrow>
   sio_rooms s = [] \<Longrightarrow>
   predict_sign_language s predict_sign request new_id now =
     (Inr \<lparr>predicted_text = Some txt, resp_confidence = conf\<rparr>,
      s\<lparr>db_captions := db_captions s @
          [\<lparr>c_id = new_id, c_text = txt, participant_name = p_name participant,
            c_room_id = room_id request, timestamp = now, confidence = conf\<rparr>]\<rparr>)"
  by (simp add: predict_sign_language_def predict_try_def sio_emit_def Let_def)

lemma predict_accept_clients:
  "predict_sign (image_data request) = (Some txt, conf) \<Longrightarrow> txt \<noteq> [] \<Longrightarrow> 7 / 10 < conf \<Longrightarrow>
   find_one_participant (db_participants s) (participant_id request) = Some participant \<Longrightarrow>
   sio_rooms s \<noteq> [] \<Longrightarrow>
   predict_sign_language s predict_sign request new_id now =
     (Inl (HTTPException 500 ''Prediction failed''),
      s\<lparr>db_captions := db_captions s @
          [\<lparr>c_id = new_id, c_text = txt, participant_name = p_name participant,
            c_room_id = room_id request, timestamp = now, confidence = conf\<rparr>]\<rparr>)"
  by (simp add: predict_sign_language_def predict_try_def sio_emit_def Let_def)

text \<open>
  C2, amended. If the classifier's label is absent or empty, or its confidence is at most
  0.7, the request returns the confidence with a null predicted text and leaves the state
  unchanged: no caption is stored and nothing is emitted. If the label is present and not
  empty, the confidence is above 0.7 and the participant id is known, exactly one caption
  is appended to the captions collection; when no Socket.IO client is connected, the
  request then returns the label and the confidence (there is no connection to deliver
  \<^verbatim>\<open>new_caption\<close> to). What the request answers and delivers while clients are
  connected is not part of this statement.
\<close>

theorem predict_gate:
  "(predict_sign (image_data request) = (label, conf) \<and>
      (label = None \<or> label = Some [] \<or> conf \<le> 7 / 10) \<longrightarrow>
      predict_sign_language s predict_sign request new_id now =
        (Inr \<lparr>predicted_text = None, resp_confidence = conf\<rparr>, s)) \<and>
   (predict_sign (image_data request) = (Some txt, conf) \<and> txt \<noteq> [] \<and> 7 / 10 < conf \<and>
      find_one_participant (db_participants s) (participant_id request) = Some participant \<longrightarrow>
      db_captions (snd (predict_sign_language s predict_sign request new_id now)) =
        db_captions s @
          [\<lparr>c_id = new_id, c_text = txt, participant_name = p_name participant,
            c_room_id = room_id request, timestamp = now, confidence = conf\<rparr>] \<and>
      (sio_rooms s = [] \<longrightarrow>
         predict_sign_language s predict_sign request new_id now =
           (Inr \<lparr>predicted_text = Some txt, resp_confidence = conf\<rparr>,
            s\<lparr>db_captions := db_captions s @
                [\<lparr>c_id = new_id, c_text = txt, participant_name = p_name participant,
                  c_room_id = room_id request, timestamp = now, confidence = conf\<rparr>]\<rparr>)))"
proof (intro conjI impI)
  assume "predict_sign (image_data request) = (label, conf) \<and>
      (label = None \<or> label = Some [] \<or> conf \<le> 7 / 10)"
  then show "predict_sign_language s predict_sign request new_id now =
        (Inr \<lparr>predicted_text = None, resp_confidence = conf\<rparr>, s)"
    using predict_reject by blast
next
  assume "predict_sign (image_data request) = (Some txt, conf) \<and> txt \<noteq> [] \<and> 7 / 10 < conf \<and>
      find_one_participant (db_participants s) (participant_id request) = Some participant"
  then show "db_captions (snd (predict_sign_language s predict_sign request new_id now)) =
        db_captions s @
          [\<lparr>c_id = new_id, c_text = txt, participant_name = p_name participant,
            c_room_id = room_id request, timestamp = now, confidence = conf\<rparr>]"
    by (simp add: predict_accept_stored)
next
  assume "predict_sign (image_data request) = (Some txt, conf) \<and> txt \<noteq> [] \<and> 7 / 10 < conf \<and>
      find_one_participant (db_participants s) (participant_id request) = Some participant"
    and "sio_rooms s = []"
  then show "predict_sign_language s predict_sign request new_id now =
           (Inr \<lparr>predicted_text = Some txt, resp_confidence = conf\<rparr>,
            s\<lparr>db_captions := db_captions s @
                [\<lparr>c_id = new_id, c_text = txt, participant_name = p_name participant,
                  c_room_id = room_id request, timestamp = now, confidence = conf\<rparr>]\<rparr>)"
    by (simp add: predict_accept_no_client)
qed

text \<open>
  C2, amended, on concrete requests: in the running call confidence 0.69 stores and emits
  nothing; in the lobby, where no client is connected, confidence 0.71 with Alice's
  participant id stores one caption and returns the label and the confidence.
\<close>

theorem predict_gate_witness:
  "predict_sign_language call (fixed_classifier (Some ''hello'') (69 / 100))
      (sample_request ''r1'' ''p1'') ''c1'' 5 =
     (Inr \<lparr>predicted_text = None, resp_confidence = 69 / 100\<rparr>, call) \<and>
   find_one_participant (db_participants lobby) ''p1'' = Some alice \<and>
   sio_rooms lobby = [] \<and>
   predict_sign_language lobby (fixed_classifier (Some ''hello'') (71 / 100))
      (sample_request ''r1'' ''p1'') ''c1'' 5 =
     (Inr \<lparr>predicted_text = Some ''hello'', resp_confidence = 71 / 100\<rparr>,
      lobby\<lparr>db_captions :=
          [\<lparr>c_id = ''c1'', c_text = ''hello'', participant_name = ''Alice'',
            c_room_id = ''r1'', timestamp = 5, confidence = 71 / 100\<rparr>]\<rparr>)"
  using
    predict_gate [of "fixed_classifier (Some ''hello'') (69 / 100)" "sample_request ''r1'' ''p1''"
      "Some ''hello''" "69 / 100" call "''c1''" 5 "''hello''" alice]
    predict_gate [of "fixed_classifier (Some ''hello'') (71 / 100)" "sample_request ''r1'' ''p1''"
      "Some ''hello''" "71 / 100" lobby "''c1''" 5 "''hello''" alice]
  by (simp add: fixed_classifier_def sample_request_def lobby_def no_server_def
      find_one_participant_def alice_def)

text \<open>
  C2 as stated fails for the empty label: the label is present, the confidence 0.9 is above
  0.7 and the participant is known, yet no caption is stored, nothing is emitted and the
  predicted text is null.
\<close>

theorem predict_empty_label_rejected:
  "fixed_classifier (Some '''') (9 / 10) (image_data (sample_request ''r1'' ''p1'')) =
     (Some '''', 9 / 10) \<and>
   (7 / 10 :: real) < 9 / 10 \<and>
   find_one_participant (db_participants call) (participant_id (sample_request ''r1'' ''p1'')) =
     Some alice \<and>
   predict_sign_language call (fixed_classifier (Some '''') (9 / 10))
      (sample_request ''r1'' ''p1'') ''c1'' 5 =
     (Inr \<lparr>predicted_text = None, resp_confidence = 9 / 10\<rparr>, call)"
  by (simp add: predict_sign_language_def predict_try_def fixed_classifier_def
      sample_request_def call_eq find_one_participant_def alice_def)

text \<open>
  C3. With label \<open>hello\<close>, confidence 0.9 and a participant id that no participant
  carries, the body of the handler raises 404 "Participant not found", and the handler's
  own \<^verbatim>\<open>except Exception\<close> turns it into 500 "Prediction failed", which is what the
  caller receives. No caption is stored and nothing is emitted.
\<close>

theorem predict_unknown_participant_500:
  "find_one_participant (db_participants call) ''nobody'' = None \<and>
   predict_try call (fixed_classifier (Some ''hello'') (9 / 10))
      (sample_request ''r1'' ''nobody'') ''c1'' 5 =
     (Inl (HTTPException 404 ''Participant not found''), call) \<and>
   predict_sign_language call (fixed_classifier (Some ''hello'') (9 / 10))
      (sample_request ''r1'' ''nobody'') ''c1'' 5 =
     (Inl (HTTPException 500 ''Prediction failed''), call)"
  by (simp add: predict_sign_language_def predict_try_def fixed_classifier_def
      sample_request_def call_eq find_one_participant_def alice_def)

text \<open>
  C10. Alice belongs to room \<open>r1\<close>; the request names \<open>r9\<close>, an id that no room in
  the database carries, and client \<open>b\<close> is in the Socket.IO room of that name. The
  request passes the gate with no check of the room id, and the caption is built and
  stored with \<open>r9\<close>. The emit of \<^verbatim>\<open>new_caption\<close> to \<open>r9\<close> then raises
  \<^verbatim>\<open>TypeError\<close>, because the payload carries the \<^verbatim>\<open>datetime\<close>
  \<^verbatim>\<open>timestamp\<close>: the caption is not broadcast, \<open>b\<close> receives nothing, and the
  caller is answered 500 "Prediction failed" with the caption already stored.
\<close>

theorem predict_caption_stored_not_broadcast:
  "find_one_room (db_rooms side_call) ''r9'' = None \<and>
   find_one_participant (db_participants side_call) ''p1'' = Some alice \<and>
   p_room_id alice = ''r1'' \<and>
   ''b'' \<in> set (room_members side_call (Some ''r9'')) \<and>
   predict_try side_call (fixed_classifier (Some ''hello'') (9 / 10))
      (sample_request ''r9'' ''p1'') ''c1'' 5 =
     (Inl TypeError,
      side_call\<lparr>db_captions :=
          [\<lparr>c_id = ''c1'', c_text = ''hello'', participant_name = ''Alice'',
            c_room_id = ''r9'', timestamp = 5, confidence = 9 / 10\<rparr>]\<rparr>) \<and>
   predict_sign_language side_call (fixed_classifier (Some ''hello'') (9 / 10))
      (sample_request ''r9'' ''p1'') ''c1'' 5 =
     (Inl (HTTPException 500 ''Prediction failed''),
      side_call\<lparr>db_captions :=
          [\<lparr>c_id = ''c1'', c_text = ''hello'', participant_name = ''Alice'',
            c_room_id = ''r9'', timestamp = 5, confidence = 9 / 10\<rparr>]\<rparr>) \<and>
   delivered (snd (predict_sign_language side_call (fixed_classifier (Some ''hello'') (9 / 10))
      (sample_request ''r9'' ''p1'') ''c1'' 5)) ''b'' = delivered side_call ''b''"
  by (simp add: predict_sign_language_def predict_try_def fixed_classifier_def
      sample_request_def side_call_eq find_one_participant_def find_one_room_def
      call_room_def alice_def room_members_def sio_emit_def delivered_def Let_def)

section \<open>Socket.IO events\<close>

lemma leave_room_db:
  "db_rooms (leave_room s c data) = db_rooms s \<and>
   db_participants (leave_room s c data) = db_participants s \<and>
   db_captions (leave_room s c data) = db_captions s"
  by (simp add: leave_room_def sio_emit_serializable sio_leave_room_def Let_def
      split: option.splits)

lemma leave_room_sio_rooms:
  "data ''room_id'' = Some r \<Longrightarrow> r \<noteq> [] \<Longrightarrow>
   sio_rooms (leave_room s c data) = filter (\<lambda>m. m \<noteq> (Some r, c)) (sio_rooms s)"
  by (simp add: leave_room_def sio_emit_serializable sio_leave_room_def Let_def)

lemma leave_room_no_room:
  "data ''room_id'' = None \<or> data ''room_id'' = Some [] \<Longrightarrow> leave_room s c data = s"
  by (auto simp: leave_room_def)

lemma leave_room_delivered:
  assumes "data ''room_id'' = Some r" and "r \<noteq> []"
  shows "delivered (leave_room s c data) y =
     delivered s y @ (if y \<noteq> c \<and> y \<in> set (room_members s (Some r))
                      then [User_left c] else [])"
proof -
  obtain s2 where e: "sio_emit (sio_leave_room s c (Some r)) (User_left c) (Some r) (Some c) = Inr s2"
    by (simp add: sio_emit_serializable)
  have "leave_room s c data = s2"
    using assms e by (simp add: leave_room_def Let_def)
  moreover have "delivered s2 y =
      delivered (sio_leave_room s c (Some r)) y @
        (if y \<in> set (room_members (sio_leave_room s c (Some r)) (Some r)) \<and> Some y \<noteq> Some c
         then [User_left c] else [])"
    using sio_emit_delivered [OF _ e] by simp
  ultimately show ?thesis
    by (auto simp: delivered_sio_leave_room set_room_members_leave)
qed

lemma leave_room_twice:
  "sio_rooms (leave_room (leave_room s c data) c data) = sio_rooms (leave_room s c data)"
proof (cases "data ''room_id''")
  case None
  then show ?thesis by (simp add: leave_room_no_room)
next
  case (Some r)
  show ?thesis
  proof (cases "r = []")
    case True
    with Some show ?thesis by (simp add: leave_room_no_room)
  next
    case False
    with Some show ?thesis by (simp add: leave_room_sio_rooms)
  qed
qed

lemma join_room_event_delivered:
  assumes "data ''room_id'' = Some r" and "r \<noteq> []"
  shows "delivered (join_room_event s c data) y =
     delivered s y @ (if y \<noteq> c \<and> y \<in> set (room_members s (Some r))
                      then [User_joined c (data ''participant_id'')] else [])"
proof -
  obtain s2 where e: "sio_emit (sio_enter_room s c (Some r))
      (User_joined c (data ''participant_id'')) (Some r) (Some c) = Inr s2"
    by (simp add: sio_emit_serializable)
  have "join_room_event s c data = s2"
    using assms e by (simp add: join_room_event_def Let_def)
  moreover have "delivered s2 y =
      delivered (sio_enter_room s c (Some r)) y @
        (if y \<in> set (room_members (sio_enter_room s c (Some r)) (Some r)) \<and> Some y \<noteq> Some c
         then [User_joined c (data ''participant_id'')] else [])"
    using sio_emit_delivered [OF _ e] by simp
  ultimately show ?thesis
    by (auto simp: delivered_sio_enter_room set_room_members_enter)
qed

lemma join_room_event_sio_rooms:
  "data ''room_id'' = Some r \<Longrightarrow> r \<noteq> [] \<Longrightarrow>
   sio_rooms (join_room_event s c data) = sio_rooms (sio_enter_room s c (Some r))"
  by (simp add: join_room_event_def sio_emit_serializable Let_def)

lemma webrtc_offer_delivered:
  "delivered (webrtc_offer s c data) y =
     delivered s y @ (if y \<in> set (room_members s (data ''target_sid''))
                      then [Webrtc_offer (data ''offer'') c] else [])"
proof -
  obtain s1 where e: "sio_emit s (Webrtc_offer (data ''offer'') c) (data ''target_sid'') None = Inr s1"
    by (simp add: sio_emit_serializable)
  have "webrtc_offer s c data = s1"
    using e by (simp add: webrtc_offer_def Let_def)
  then show ?thesis
    using sio_emit_delivered [OF _ e] by simp
qed

lemma webrtc_offer_sio_rooms: "sio_rooms (webrtc_offer s c data) = sio_rooms s"
  by (simp add: webrtc_offer_def sio_emit_serializable Let_def)

text \<open>
  C4, amended. The \<^verbatim>\<open>leave_room\<close> event never changes the participant list of any
  room, the participant collection or the captions. With a non-empty room id \<open>r\<close> it
  removes the membership of the connection (not of a participant id) in the Socket.IO room
  \<open>r\<close> and no other membership, and delivers \<^verbatim>\<open>user_left\<close> for the connection to
  exactly the other connections that were in room \<open>r\<close>, and nothing else to anyone. It
  raises no error whether or not the connection was a member. With no room id or an empty
  one it changes nothing. A second leave changes no membership.
\<close>

theorem leave_room_membership_only:
  "db_rooms (leave_room s c data) = db_rooms s \<and>
   db_participants (leave_room s c data) = db_participants s \<and>
   db_captions (leave_room s c data) = db_captions s \<and>
   (data ''room_id'' = Some r \<and> r \<noteq> [] \<longrightarrow>
      sio_rooms (leave_room s c data) = filter (\<lambda>m. m \<noteq> (Some r, c)) (sio_rooms s) \<and>
      (\<forall>y. delivered (leave_room s c data) y =
         delivered s y @ (if y \<noteq> c \<and> y \<in> set (room_members s (Some r))
                          then [User_left c] else []))) \<and>
   (data ''room_id'' = None \<or> data ''room_id'' = Some [] \<longrightarrow> leave_room s c data = s) \<and>
   sio_rooms (leave_room (leave_room s c data) c data) = sio_rooms (leave_room s c data)"
  by (simp add: leave_room_db leave_room_sio_rooms leave_room_delivered leave_room_no_room
      leave_room_twice)

text \<open>
  C4, amended, in the running call: client \<open>a\<close> leaves room \<open>r1\<close>; it keeps its other
  rooms, \<open>b\<close> is sent \<^verbatim>\<open>user_left\<close> and \<open>a\<close> is not.
\<close>

theorem leave_room_membership_only_witness:
  "room_payload ''r1'' ''room_id'' = Some ''r1'' \<and>
   sio_rooms (leave_room call ''a'' (room_payload ''r1'')) =
     [(None, ''a''), (Some ''a'', ''a''), (None, ''b''), (Some ''b'', ''b''), (Some ''r1'', ''b'')] \<and>
   delivered (leave_room call ''a'' (room_payload ''r1'')) ''b'' =
     delivered call ''b'' @ [User_left ''a''] \<and>
   delivered (leave_room call ''a'' (room_payload ''r1'')) ''a'' = delivered call ''a'' \<and>
   db_rooms (leave_room call ''a'' (room_payload ''r1'')) = db_rooms call \<and>
   db_participants (leave_room call ''a'' (room_payload ''r1'')) = db_participants call \<and>
   no_payload ''room_id'' = None \<and>
   leave_room call ''a'' no_payload = call"
  using leave_room_membership_only [of call "''a''" "room_payload ''r1''" "''r1''"]
    leave_room_membership_only [of call "''a''" no_payload "''r1''"]
  by (simp add: room_payload_def no_payload_def call_eq room_members_def)

text \<open>
  C4 as stated fails: Alice's client \<open>a\<close> leaves room \<open>r1\<close> naming participant
  \<open>p1\<close>; afterwards \<open>p1\<close> is still in the participant list of \<open>r1\<close> and still in
  the participant collection.
\<close>

theorem leave_room_keeps_participant:
  "find_one_room (db_rooms (leave_room call ''a'' (join_payload ''r1'' ''p1''))) ''r1'' =
     Some call_room \<and>
   ''p1'' \<in> set (participants call_room) \<and>
   find_one_participant
     (db_participants (leave_room call ''a'' (join_payload ''r1'' ''p1''))) ''p1'' = Some alice"
  by (simp add: leave_room_db call_eq find_one_room_def find_one_participant_def
      call_room_def alice_def)

text \<open>
  C5. Clients \<open>a\<close> and \<open>b\<close> are both in room \<open>r1\<close>. The \<^verbatim>\<open>disconnect\<close>
  handler for \<open>a\<close> returns the state as it is, so \<open>b\<close> is never sent
  \<^verbatim>\<open>user_left\<close> for \<open>a\<close>; the \<^verbatim>\<open>leave_room\<close> handler, for the same client
  and room, sends it to \<open>b\<close> exactly once.
\<close>

theorem disconnect_announces_nothing:
  "''a'' \<in> set (room_members call (Some ''r1'')) \<and>
   ''b'' \<in> set (room_members call (Some ''r1'')) \<and>
   disconnect call ''a'' = call \<and>
   User_left ''a'' \<notin> set (delivered (disconnect call ''a'') ''b'') \<and>
   count_list (delivered (leave_room call ''a'' (room_payload ''r1'')) ''b'') (User_left ''a'') = 1"
  by (simp add: disconnect_def call_eq room_members_def delivered_def leave_room_def
      sio_emit_def sio_leave_room_def room_payload_def Let_def)

text \<open>
  C6, amended. A \<^verbatim>\<open>webrtc_offer\<close> event from connection \<open>c\<close> makes one emit,
  addressed to the Socket.IO room named by \<^verbatim>\<open>target_sid\<close> and carrying the offer and
  \<open>from_sid = c\<close>; the rooms of \<open>c\<close> are not looked at. It is delivered to exactly the
  members of that room. When the room named \<open>x\<close> holds \<open>x\<close> alone (\<open>x\<close> is connected
  and no other connection has entered a room of its name), exactly one offer reaches \<open>x\<close>
  and no other connection receives anything.
\<close>

theorem webrtc_offer_relay:
  "delivered (webrtc_offer s c data) y =
     delivered s y @ (if y \<in> set (room_members s (data ''target_sid''))
                      then [Webrtc_offer (data ''offer'') c] else []) \<and>
   sio_rooms (webrtc_offer s c data) = sio_rooms s \<and>
   (data ''target_sid'' = Some x \<and> room_members s (Some x) = [x] \<longrightarrow>
      delivered (webrtc_offer s c data) x = delivered s x @ [Webrtc_offer (data ''offer'') c] \<and>
      (\<forall>z. z \<noteq> x \<longrightarrow> delivered (webrtc_offer s c data) z = delivered s z))"
  by (simp add: webrtc_offer_delivered webrtc_offer_sio_rooms)

text \<open>C6, amended, in the running call: \<open>a\<close> sends an offer to \<open>b\<close>.\<close>

theorem webrtc_offer_relay_witness:
  "offer_payload ''b'' ''sdp'' ''target_sid'' = Some ''b'' \<and>
   room_members call (Some ''b'') = [''b''] \<and>
   delivered (webrtc_offer call ''a'' (offer_payload ''b'' ''sdp'')) ''b'' =
     delivered call ''b'' @ [Webrtc_offer (Some ''sdp'') ''a''] \<and>
   delivered (webrtc_offer call ''a'' (offer_payload ''b'' ''sdp'')) ''a'' = delivered call ''a''"
  using webrtc_offer_relay [of call "''a''" "offer_payload ''b'' ''sdp''" "''a''" "''b''"]
  by (simp add: offer_payload_def call_eq room_members_def)

text \<open>
  C6 as stated fails: \<open>eve\<close> has joined the room named by the connection id of \<open>x\<close>;
  the offer that \<open>s\<close> sends to \<open>x\<close> is delivered to \<open>x\<close> and to \<open>eve\<close>.
\<close>

theorem webrtc_offer_overheard:
  "delivered (webrtc_offer tapped ''s'' (offer_payload ''x'' ''sdp'')) ''eve'' =
     [Webrtc_offer (Some ''sdp'') ''s''] \<and>
   delivered (webrtc_offer tapped ''s'' (offer_payload ''x'' ''sdp'')) ''x'' =
     [User_joined ''eve'' None, Webrtc_offer (Some ''sdp'') ''s'']"
  by (simp add: tapped_eq webrtc_offer_def sio_emit_def room_members_def delivered_def
      offer_payload_def Let_def)

text \<open>
  C8, amended. A \<^verbatim>\<open>join_room\<close> event with a non-empty room id adds the connection
  to the Socket.IO room of that name and keeps every membership the connection already
  had: a connection that joins a second room is a member of both.
\<close>

theorem join_room_event_adds_membership:
  "data ''room_id'' = Some r \<Longrightarrow> r \<noteq> [] \<Longrightarrow>
   set (sio_rooms (join_room_event s c data)) = insert (Some r, c) (set (sio_rooms s))"
  by (simp add: join_room_event_sio_rooms set_sio_enter_room)

text \<open>C8, amended, in the running call: \<open>a\<close>, a member of \<open>r1\<close>, joins \<open>r2\<close>.\<close>

theorem join_room_event_adds_membership_witness:
  "room_payload ''r2'' ''room_id'' = Some ''r2'' \<and>
   set (sio_rooms (join_room_event call ''a'' (room_payload ''r2''))) =
     insert (Some ''r2'', ''a'') (set (sio_rooms call))"
  using join_room_event_adds_membership [of "room_payload ''r2''" "''r2''" call "''a''"]
  by (simp add: room_payload_def)

text \<open>
  C8 as stated fails: after \<open>a\<close>, bound to \<open>r1\<close>, joins \<open>r2\<close>, it is a member of
  \<open>r1\<close> and of \<open>r2\<close> at once.
\<close>

theorem join_room_event_two_rooms:
  "''a'' \<in> set (room_members call (Some ''r1'')) \<and>
   ''a'' \<in> set (room_members (join_room_event call ''a'' (room_payload ''r2'')) (Some ''r1'')) \<and>
   ''a'' \<in> set (room_members (join_room_event call ''a'' (room_payload ''r2'')) (Some ''r2''))"
  by (simp add: call_eq join_room_event_def sio_enter_room_def sio_emit_def room_members_def
      room_payload_def Let_def)

end
